theory Spec2Isabelle
  imports Complex_Main "HOL-Library.Word"
begin

unbundle bit_operations_syntax

section \<open>The parameterised AES-128 key schedule (aes_custom.py)\<close>

text \<open>
  A Python \<open>bytes\<close> value is a sequence of integers in \<open>0..255\<close>; it is modelled as a
  list of 8-bit words. The rotation amounts and the Rcon multipliers are Python integers
  (unbounded), modelled as \<open>int\<close>. The exceptions that the modelled code can raise are
  the constructors of \<open>error\<close>.
\<close>

type_synonym byte = "8 word"

datatype error = IndexError | ValueError | ZeroDivisionError

text \<open>\<open>CustomAES.SBOX\<close>, row by row as in the source.\<close>

definition SBOX :: "byte list" where
  "SBOX = [
    0x63, 0x7c, 0x77, 0x7b, 0xf2, 0x6b, 0x6f, 0xc5, 0x30, 0x01, 0x67, 0x2b, 0xfe, 0xd7, 0xab, 0x76,
    0xca, 0x82, 0xc9, 0x7d, 0xfa, 0x59, 0x47, 0xf0, 0xad, 0xd4, 0xa2, 0xaf, 0x9c, 0xa4, 0x72, 0xc0,
    0xb7, 0xfd, 0x93, 0x26, 0x36, 0x3f, 0xf7, 0xcc, 0x34, 0xa5, 0xe5, 0xf1, 0x71, 0xd8, 0x31, 0x15,
    0x04, 0xc7, 0x23, 0xc3, 0x18, 0x96, 0x05, 0x9a, 0x07, 0x12, 0x80, 0xe2, 0xeb, 0x27, 0xb2, 0x75,
    0x09, 0x83, 0x2c, 0x1a, 0x1b, 0x6e, 0x5a, 0xa0, 0x52, 0x3b, 0xd6, 0xb3, 0x29, 0xe3, 0x2f, 0x84,
    0x53, 0xd1, 0x00, 0xed, 0x20, 0xfc, 0xb1, 0x5b, 0x6a, 0xcb, 0xbe, 0x39, 0x4a, 0x4c, 0x58, 0xcf,
    0xd0, 0xef, 0xaa, 0xfb, 0x43, 0x4d, 0x33, 0x85, 0x45, 0xf9, 0x02, 0x7f, 0x50, 0x3c, 0x9f, 0xa8,
    0x51, 0xa3, 0x40, 0x8f, 0x92, 0x9d, 0x38, 0xf5, 0xbc, 0xb6, 0xda, 0x21, 0x10, 0xff, 0xf3, 0xd2,
    0xcd, 0x0c, 0x13, 0xec, 0x5f, 0x97, 0x44, 0x17, 0xc4, 0xa7, 0x7e, 0x3d, 0x64, 0x5d, 0x19, 0x73,
    0x60, 0x81, 0x4f, 0xdc, 0x22, 0x2a, 0x90, 0x88, 0x46, 0xee, 0xb8, 0x14, 0xde, 0x5e, 0x0b, 0xdb,
    0xe0, 0x32, 0x3a, 0x0a, 0x49, 0x06, 0x24, 0x5c, 0xc2, 0xd3, 0xac, 0x62, 0x91, 0x95, 0xe4, 0x79,
    0xe7, 0xc8, 0x37, 0x6d, 0x8d, 0xd5, 0x4e, 0xa9, 0x6c, 0x56, 0xf4, 0xea, 0x65, 0x7a, 0xae, 0x08,
    0xba, 0x78, 0x25, 0x2e, 0x1c, 0xa6, 0xb4, 0xc6, 0xe8, 0xdd, 0x74, 0x1f, 0x4b, 0xbd, 0x8b, 0x8a,
    0x70, 0x3e, 0xb5, 0x66, 0x48, 0x03, 0xf6, 0x0e, 0x61, 0x35, 0x57, 0xb9, 0x86, 0xc1, 0x1d, 0x9e,
    0xe1, 0xf8, 0x98, 0x11, 0x69, 0xd9, 0x8e, 0x94, 0x9b, 0x1e, 0x87, 0xe9, 0xce, 0x55, 0x28, 0xdf,
    0x8c, 0xa1, 0x89, 0x0d, 0xbf, 0xe6, 0x42, 0x68, 0x41, 0x99, 0x2d, 0x0f, 0xb0, 0x54, 0xbb, 0x16]"

text \<open>\<open>CustomAES.RCON\<close>: Python integers, multiplied before the reduction modulo 256.\<close>

definition RCON :: "int list" where
  "RCON = [0x01, 0x02, 0x04, 0x08, 0x10, 0x20, 0x40, 0x80, 0x1B, 0x36]"

text \<open>
  The slice \<open>xs[a:b]\<close> for indices \<open>0 \<le> a \<le> b\<close>: Python clips both ends to the length
  of the list and never raises.
\<close>

definition slice :: "'a list \<Rightarrow> nat \<Rightarrow> nat \<Rightarrow> 'a list" where
  "slice xs a b = take (b - a) (drop a xs)"

text \<open>\<open>rot_word\<close>: \<open>positions % 4\<close> is Python's modulo, in \<open>0..3\<close> also for a negative amount.\<close>

definition rot_word :: "byte list \<Rightarrow> int \<Rightarrow> byte list" where
  "rot_word word positions =
     (let positions = positions mod 4
      in drop (nat positions) word @ take (nat positions) word)"

text \<open>\<open>sub_word\<close>: a byte is always a valid index of the 256-entry table.\<close>

definition sub_word :: "byte list \<Rightarrow> byte list" where
  "sub_word word = map (\<lambda>b. SBOX ! unat b) word"

text \<open>
  One iteration of the loop of \<open>custom_key_expansion\<close>, for word index \<open>i\<close>.
  \<open>temp[0] ^= rcon_value\<close> and the comprehension \<open>[temp[j] ^ prev_word[j] for j in range(4)]\<close>
  raise IndexError when the sliced words are too short.
\<close>

definition expansion_step :: "int list \<Rightarrow> int list \<Rightarrow> nat \<Rightarrow> byte list \<Rightarrow> error + byte list" where
  "expansion_step rotations rcon_multipliers i expanded =
     (let temp = slice expanded ((i - 1) * 4) (i * 4);
          temp' =
            (if i mod 4 = 0 then
               (let round_num = i div 4 - 1;
                    rotation = (if round_num < length rotations then rotations ! round_num else 1);
                    temp = rot_word temp rotation;
                    temp = sub_word temp;
                    rcon_mult = (if round_num < length rcon_multipliers
                                 then rcon_multipliers ! round_num else 1);
                    rcon_value = (RCON ! round_num * rcon_mult) mod 256
                in if temp = [] then Inl IndexError
                   else Inr (temp[0 := temp ! 0 XOR word_of_int rcon_value]))
             else Inr temp)
      in case temp' of
           Inl e \<Rightarrow> Inl e
         | Inr temp \<Rightarrow>
             (let prev_word = slice expanded ((i - 4) * 4) ((i - 3) * 4)
              in if length temp < 4 \<or> length prev_word < 4 then Inl IndexError
                 else Inr (expanded @ map (\<lambda>j. temp ! j XOR prev_word ! j) [0..<4])))"

text \<open>The \<open>for i in range(4, 44)\<close> loop: the steps in order, stopping at the first exception.\<close>

fun expansion_loop :: "int list \<Rightarrow> int list \<Rightarrow> nat list \<Rightarrow> byte list \<Rightarrow> error + byte list" where
  "expansion_loop rotations rcon_multipliers [] expanded = Inr expanded"
| "expansion_loop rotations rcon_multipliers (i # is) expanded =
     (case expansion_step rotations rcon_multipliers i expanded of
        Inl e \<Rightarrow> Inl e
      | Inr expanded' \<Rightarrow> expansion_loop rotations rcon_multipliers is expanded')"

definition custom_key_expansion :: "int list \<Rightarrow> int list \<Rightarrow> byte list \<Rightarrow> error + byte list" where
  "custom_key_expansion rotations rcon_multipliers key =
     expansion_loop rotations rcon_multipliers [4..<44] key"


subsection \<open>The cipher object\<close>

text \<open>
  The fields of a \<open>CustomAES\<close> instance. \<open>key\<close> and \<open>expanded_key\<close> are \<open>None\<close>
  until the first call of \<open>encrypt\<close> or \<open>decrypt\<close>.
\<close>

record CustomAES =
  rotations :: "int list"
  rcon_multipliers :: "int list"
  key :: "byte list option"
  expanded_key :: "byte list option"
  encryption_times :: "real list"
  decryption_times :: "real list"

text \<open>
  \<open>CustomAES.__init__\<close>: the parameter dictionary is a finite map from field names to
  integer lists; a missing dictionary or a missing entry gives \<open>[1] * 10\<close>.
\<close>

definition init_CustomAES :: "(string \<rightharpoonup> int list) option \<Rightarrow> CustomAES" where
  "init_CustomAES key_schedule_params =
     (case key_schedule_params of
        None \<Rightarrow>
          \<lparr>rotations = replicate 10 1, rcon_multipliers = replicate 10 1,
           key = None, expanded_key = None, encryption_times = [], decryption_times = []\<rparr>
      | Some params \<Rightarrow>
          \<lparr>rotations = (case params ''rotations'' of Some r \<Rightarrow> r | None \<Rightarrow> replicate 10 1),
           rcon_multipliers =
             (case params ''rcon_multipliers'' of Some r \<Rightarrow> r | None \<Rightarrow> replicate 10 1),
           key = None, expanded_key = None, encryption_times = [], decryption_times = []\<rparr>)"

text \<open>
  \<open>Crypto.Util.Padding.pad\<close> (PKCS#7): between 1 and \<open>block_size\<close> bytes are appended,
  each holding the number of bytes appended.
\<close>

definition pad :: "byte list \<Rightarrow> nat \<Rightarrow> byte list" where
  "pad data block_size =
     (let padding_len = block_size - length data mod block_size
      in data @ replicate padding_len (of_nat padding_len))"

text \<open>
  \<open>CustomAES.encrypt\<close>. The block cipher of the Crypto library is not part of the
  repository: it is the parameter \<open>AES_ECB\<close>, a function of the key and of the padded
  plaintext that returns the ciphertext or raises (a key length it does not accept). The two
  readings of \<open>time.perf_counter\<close> are the parameters \<open>start_time\<close> and \<open>end_time\<close>.
  The result is the ciphertext and the updated instance.
\<close>

definition encrypt ::
  "(byte list \<Rightarrow> byte list \<Rightarrow> error + byte list) \<Rightarrow> real \<Rightarrow> real \<Rightarrow>
   CustomAES \<Rightarrow> byte list \<Rightarrow> byte list \<Rightarrow> error + (byte list \<times> CustomAES)" where
  "encrypt AES_ECB start_time end_time self plaintext k =
     (let self = self\<lparr>key := Some k\<rparr>
      in case custom_key_expansion (rotations self) (rcon_multipliers self) k of
           Inl e \<Rightarrow> Inl e
         | Inr ek \<Rightarrow>
             (let self = self\<lparr>expanded_key := Some ek\<rparr>;
                  padded_plaintext = pad plaintext 16
              in case AES_ECB k padded_plaintext of
                   Inl e \<Rightarrow> Inl e
                 | Inr ciphertext \<Rightarrow>
                     (let encryption_time = (end_time - start_time) * 1000
                      in Inr (ciphertext,
                              self\<lparr>encryption_times :=
                                      encryption_times self @ [encryption_time]\<rparr>))))"

text \<open>
  \<open>get_key_schedule_entropy\<close>: the Shannon entropy is computed by numpy; the function
  from the schedule to its entropy is the parameter \<open>entropy\<close>.
\<close>

definition get_key_schedule_entropy :: "(byte list \<Rightarrow> real) \<Rightarrow> CustomAES \<Rightarrow> real" where
  "get_key_schedule_entropy entropy self =
     (case expanded_key self of None \<Rightarrow> 0 | Some ek \<Rightarrow> entropy ek)"


section \<open>The genetic algorithm (ga_optimizer.py)\<close>

subsection \<open>The random source\<close>

text \<open>
  The module \<open>random\<close> is modelled by an arbitrary infinite sequence of raw draws;
  every call consumes the head of the sequence. \<open>random.random()\<close> returns a float
  \<open>k / 2^53\<close> in \<open>[0.0, 1.0)\<close>, 0.0 included; \<open>random.randint(a, b)\<close> returns an
  integer in \<open>[a, b]\<close>; \<open>random.sample(xs, k)\<close> returns \<open>k\<close> elements at distinct
  positions and raises ValueError when \<open>k\<close> exceeds the length of \<open>xs\<close>. Every outcome
  of the library functions is the image of some sequence. Floats are modelled as reals.
\<close>

type_synonym rng = "nat \<Rightarrow> nat"

definition rng_tail :: "rng \<Rightarrow> rng" where
  "rng_tail g = (\<lambda>n. g (Suc n))"

definition random_random :: "rng \<Rightarrow> real \<times> rng" where
  "random_random g = (real (g 0 mod 2 ^ 53) / 2 ^ 53, rng_tail g)"

definition randint :: "int \<Rightarrow> int \<Rightarrow> rng \<Rightarrow> int \<times> rng" where
  "randint a b g = (a + int (g 0 mod nat (b - a + 1)), rng_tail g)"

fun pick :: "'a list \<Rightarrow> nat \<Rightarrow> rng \<Rightarrow> 'a list \<times> rng" where
  "pick xs 0 g = ([], g)"
| "pick xs (Suc k) g =
     (let j = g 0 mod length xs;
          (ys, g') = pick (take j xs @ drop (Suc j) xs) k (rng_tail g)
      in (xs ! j # ys, g'))"

definition sample :: "'a list \<Rightarrow> nat \<Rightarrow> rng \<Rightarrow> error + ('a list \<times> rng)" where
  "sample xs k g = (if length xs < k then Inl ValueError else Inr (pick xs k g))"

text \<open>\<open>[random.randint(a, b) for _ in range(n)]\<close>\<close>

fun randints :: "nat \<Rightarrow> int \<Rightarrow> int \<Rightarrow> rng \<Rightarrow> int list \<times> rng" where
  "randints 0 a b g = ([], g)"
| "randints (Suc n) a b g =
     (let (x, g) = randint a b g; (xs, g) = randints n a b g in (x # xs, g))"

text \<open>
  The slices \<open>xs[:n]\<close> and \<open>xs[n:]\<close> for a Python integer \<open>n\<close>: a negative index counts
  from the end, and both are clipped to the list.
\<close>

definition slice_to :: "'a list \<Rightarrow> int \<Rightarrow> 'a list" where
  "slice_to xs n = (if 0 \<le> n then take (nat n) xs else take (nat (int (length xs) + n)) xs)"

definition slice_from :: "'a list \<Rightarrow> int \<Rightarrow> 'a list" where
  "slice_from xs n = (if 0 \<le> n then drop (nat n) xs else drop (nat (int (length xs) + n)) xs)"

subsection \<open>Chromosomes\<close>

record KeyScheduleChromosome =
  rotations :: "int list"
  rcon_multipliers :: "int list"
  fitness :: real
  metrics :: "(string \<times> real) list"

text \<open>\<open>KeyScheduleChromosome(rotations, rcon_multipliers)\<close> with both arguments given.\<close>

definition new_chromosome :: "int list \<Rightarrow> int list \<Rightarrow> KeyScheduleChromosome" where
  "new_chromosome rot rcon =
     \<lparr>rotations = rot, rcon_multipliers = rcon, fitness = 0, metrics = []\<rparr>"

text \<open>\<open>KeyScheduleChromosome()\<close>: ten draws for the rotations, then ten for the multipliers.\<close>

definition random_chromosome :: "rng \<Rightarrow> KeyScheduleChromosome \<times> rng" where
  "random_chromosome g =
     (let (rot, g) = randints 10 1 3 g;
          (rcon, g) = randints 10 1 3 g
      in (new_chromosome rot rcon, g))"

definition to_params :: "KeyScheduleChromosome \<Rightarrow> (string \<rightharpoonup> int list)" where
  "to_params c = [''rotations'' \<mapsto> rotations c, ''rcon_multipliers'' \<mapsto> rcon_multipliers c]"

subsection \<open>The optimizer\<close>

text \<open>
  The fields of a \<open>GeneticAlgorithm\<close> instance (the two class references apart). The
  libraries that the fitness evaluation calls are the record \<open>externals\<close>: the block cipher
  and numpy's entropy computation. What \<open>SecurityMetrics\<close> measures with fresh random
  plaintexts and the wall clock is an input of each evaluation, a \<open>measurement\<close>.
\<close>

record GeneticAlgorithm =
  population_size :: int
  crossover_rate :: real
  mutation_rate :: real
  num_generations :: int
  elitism_count :: int
  best_fitness_history :: "real list"
  avg_fitness_history :: "real list"
  best_chromosome :: "KeyScheduleChromosome option"
  test_key :: "byte list"
  w_avalanche :: real
  w_entropy :: real
  w_speed :: real

record externals =
  AES_ECB :: "byte list \<Rightarrow> byte list \<Rightarrow> error + byte list"
  entropy :: "byte list \<Rightarrow> real"

record measurement =
  avalanche_mean :: real
  avalanche_std :: real
  enc_time :: real
  probe_start :: real
  probe_end :: real

type_synonym measurements = "nat \<Rightarrow> measurement"

text \<open>\<open>GeneticAlgorithm.__init__\<close>; the test key is drawn by the Crypto library.\<close>

definition init_GeneticAlgorithm ::
  "int \<Rightarrow> real \<Rightarrow> real \<Rightarrow> int \<Rightarrow> int \<Rightarrow> byte list \<Rightarrow> GeneticAlgorithm" where
  "init_GeneticAlgorithm ps cr mr ng ec tk =
     \<lparr>population_size = ps, crossover_rate = cr, mutation_rate = mr,
      num_generations = ng, elitism_count = ec,
      best_fitness_history = [], avg_fitness_history = [], best_chromosome = None,
      test_key = tk, w_avalanche = 0.4, w_entropy = 0.3, w_speed = 0.3\<rparr>"

definition standard :: KeyScheduleChromosome where
  "standard = new_chromosome (replicate 10 1) (replicate 10 1)"

fun random_chromosomes :: "nat \<Rightarrow> rng \<Rightarrow> KeyScheduleChromosome list \<times> rng" where
  "random_chromosomes 0 g = ([], g)"
| "random_chromosomes (Suc n) g =
     (let (c, g) = random_chromosome g; (cs, g) = random_chromosomes n g in (c # cs, g))"

definition initialize_population ::
  "GeneticAlgorithm \<Rightarrow> rng \<Rightarrow> KeyScheduleChromosome list \<times> rng" where
  "initialize_population self g =
     (let (cs, g) = random_chromosomes (nat (population_size self - 1)) g
      in (standard # cs, g))"

text \<open>The sixteen bytes of \<open>b"test" * 4\<close>.\<close>

definition probe :: "byte list" where
  "probe = concat (replicate 4 [0x74, 0x65, 0x73, 0x74])"

text \<open>
  \<open>evaluate_fitness\<close> returns the fitness and stores the metrics in the chromosome.
  The cipher raises when it rejects the key; the division raises when its divisor is zero.
\<close>

definition evaluate_fitness ::
  "externals \<Rightarrow> GeneticAlgorithm \<Rightarrow> measurement \<Rightarrow> KeyScheduleChromosome \<Rightarrow>
   error + (real \<times> KeyScheduleChromosome)" where
  "evaluate_fitness ext self m chromosome =
     (let aes = init_CustomAES (Some (to_params chromosome))
      in case encrypt (AES_ECB ext) (probe_start m) (probe_end m) aes probe (test_key self) of
           Inl e \<Rightarrow> Inl e
         | Inr (_, aes) \<Rightarrow>
             (let entropy = get_key_schedule_entropy (entropy ext) aes;
                  avalanche_score = 1 - \<bar>avalanche_mean m - 50\<bar> / 50;
                  avalanche_score = max 0 avalanche_score;
                  entropy_score = entropy / 8
              in if 1 + enc_time m * 10 = 0 then Inl ZeroDivisionError
                 else
                   (let speed_score = 1 / (1 + enc_time m * 10);
                        fitness = w_avalanche self * avalanche_score
                                  + w_entropy self * entropy_score
                                  + w_speed self * speed_score
                    in Inr (fitness,
                            chromosome\<lparr>metrics :=
                              [(''avalanche_mean'', avalanche_mean m),
                               (''avalanche_std'', avalanche_std m),
                               (''encryption_time'', enc_time m),
                               (''entropy'', entropy),
                               (''avalanche_score'', avalanche_score),
                               (''entropy_score'', entropy_score),
                               (''speed_score'', speed_score)]\<rparr>))))"

text \<open>\<open>for chromosome in cs: chromosome.fitness = self.evaluate_fitness(chromosome)\<close>\<close>

fun evaluate_all ::
  "externals \<Rightarrow> GeneticAlgorithm \<Rightarrow> KeyScheduleChromosome list \<Rightarrow> measurements \<Rightarrow>
   error + (KeyScheduleChromosome list \<times> measurements)" where
  "evaluate_all ext self [] ms = Inr ([], ms)"
| "evaluate_all ext self (c # cs) ms =
     (case evaluate_fitness ext self (ms 0) c of
        Inl e \<Rightarrow> Inl e
      | Inr (f, c') \<Rightarrow>
          (case evaluate_all ext self cs (\<lambda>n. ms (Suc n)) of
             Inl e \<Rightarrow> Inl e
           | Inr (cs', ms') \<Rightarrow> Inr (c'\<lparr>fitness := f\<rparr> # cs', ms')))"

text \<open>\<open>max(tournament, key=lambda x: x.fitness)\<close>: the first of the fittest.\<close>

fun max_by_fitness :: "KeyScheduleChromosome \<Rightarrow> KeyScheduleChromosome list \<Rightarrow> KeyScheduleChromosome" where
  "max_by_fitness best [] = best"
| "max_by_fitness best (x # xs) = max_by_fitness (if fitness best < fitness x then x else best) xs"

definition selection_tournament ::
  "KeyScheduleChromosome list \<Rightarrow> nat \<Rightarrow> rng \<Rightarrow> error + (KeyScheduleChromosome \<times> rng)" where
  "selection_tournament population tournament_size g =
     (case sample population tournament_size g of
        Inl e \<Rightarrow> Inl e
      | Inr (tournament, g) \<Rightarrow>
          (case tournament of
             [] \<Rightarrow> Inl ValueError
           | t # ts \<Rightarrow> Inr (max_by_fitness t ts, g)))"

text \<open>
  \<open>crossover_single_point\<close>: the deep copies of the first branch are the parents
  themselves, as values.
\<close>

definition crossover_single_point ::
  "GeneticAlgorithm \<Rightarrow> KeyScheduleChromosome \<Rightarrow> KeyScheduleChromosome \<Rightarrow> rng \<Rightarrow>
   (KeyScheduleChromosome \<times> KeyScheduleChromosome) \<times> rng" where
  "crossover_single_point self parent1 parent2 g =
     (let (u, g) = random_random g
      in if u > crossover_rate self then ((parent1, parent2), g)
         else
           (let (point, g) = randint 1 9 g;
                child1_rot = slice_to (rotations parent1) point @ slice_from (rotations parent2) point;
                child1_rcon = slice_to (rcon_multipliers parent1) point
                              @ slice_from (rcon_multipliers parent2) point;
                child2_rot = slice_to (rotations parent2) point @ slice_from (rotations parent1) point;
                child2_rcon = slice_to (rcon_multipliers parent2) point
                              @ slice_from (rcon_multipliers parent1) point;
                child1 = new_chromosome child1_rot child1_rcon;
                child2 = new_chromosome child2_rot child2_rcon
            in ((child1, child2), g)))"

text \<open>One of the two loops of \<open>mutate\<close>, over the genes of one array, left to right.\<close>

fun mutate_genes :: "real \<Rightarrow> int list \<Rightarrow> rng \<Rightarrow> int list \<times> rng" where
  "mutate_genes rate [] g = ([], g)"
| "mutate_genes rate (x # xs) g =
     (let (u, g) = random_random g
      in if u < rate then
           (let (v, g) = randint 1 3 g; (ys, g) = mutate_genes rate xs g in (v # ys, g))
         else
           (let (ys, g) = mutate_genes rate xs g in (x # ys, g)))"

definition mutate ::
  "GeneticAlgorithm \<Rightarrow> KeyScheduleChromosome \<Rightarrow> rng \<Rightarrow> KeyScheduleChromosome \<times> rng" where
  "mutate self chromosome g =
     (let (rot, g) = mutate_genes (mutation_rate self) (rotations chromosome) g;
          (rcon, g) = mutate_genes (mutation_rate self) (rcon_multipliers chromosome) g
      in (chromosome\<lparr>rotations := rot, rcon_multipliers := rcon\<rparr>, g))"


text \<open>
  One pass through the body of the \<open>while\<close> loop of \<open>evolve\<close>: two tournaments, the
  crossover and the two mutations.
\<close>

definition make_offspring ::
  "GeneticAlgorithm \<Rightarrow> KeyScheduleChromosome list \<Rightarrow> rng \<Rightarrow>
   error + ((KeyScheduleChromosome \<times> KeyScheduleChromosome) \<times> rng)" where
  "make_offspring self population g =
     (case selection_tournament population 3 g of
        Inl e \<Rightarrow> Inl e
      | Inr (parent1, g) \<Rightarrow>
          (case selection_tournament population 3 g of
             Inl e \<Rightarrow> Inl e
           | Inr (parent2, g) \<Rightarrow>
               (let ((child1, child2), g) = crossover_single_point self parent1 parent2 g;
                    (child1, g) = mutate self child1 g;
                    (child2, g) = mutate self child2 g
                in Inr ((child1, child2), g))))"

text \<open>The two \<open>append\<close> calls that end the body of the loop.\<close>

definition add_children ::
  "GeneticAlgorithm \<Rightarrow> KeyScheduleChromosome list \<Rightarrow> KeyScheduleChromosome \<Rightarrow>
   KeyScheduleChromosome \<Rightarrow> KeyScheduleChromosome list" where
  "add_children self next_generation child1 child2 =
     (let next_generation = next_generation @ [child1]
      in if int (length next_generation) < population_size self
         then next_generation @ [child2] else next_generation)"

text \<open>\<open>while len(next_generation) < self.population_size: ...\<close>\<close>

function generate_offspring ::
  "GeneticAlgorithm \<Rightarrow> KeyScheduleChromosome list \<Rightarrow> KeyScheduleChromosome list \<Rightarrow> rng \<Rightarrow>
   error + (KeyScheduleChromosome list \<times> rng)" where
  "generate_offspring self population next_generation g =
     (if int (length next_generation) < population_size self then
        (case make_offspring self population g of
           Inl e \<Rightarrow> Inl e
         | Inr ((child1, child2), g') \<Rightarrow>
             generate_offspring self population
               (add_children self next_generation child1 child2) g')
      else Inr (next_generation, g))"
  by pat_completeness auto
termination
  by (relation "measure (\<lambda>(self, population, next_generation, g).
                  nat (population_size self - int (length next_generation)))")
     (auto simp: add_children_def Let_def)

text \<open>
  The state that the generations of \<open>evolve\<close> thread: the optimizer with its histories
  and its best chromosome, the current population, and the two sources.
\<close>

record run =
  ga :: GeneticAlgorithm
  current :: "KeyScheduleChromosome list"
  draws :: rng
  readings :: measurements

text \<open>
  The body of \<open>for generation in range(self.num_generations)\<close>. The sort is stable and
  descending in the fitness; \<open>population[0]\<close> raises IndexError on an empty population.
\<close>

definition generation ::
  "externals \<Rightarrow> run \<Rightarrow> error + run" where
  "generation ext st =
     (let self = ga st;
          population = sort_key (\<lambda>c. - fitness c) (current st)
      in case population of
           [] \<Rightarrow> Inl IndexError
         | best # _ \<Rightarrow>
             (let best_fitness = fitness best;
                  avg_fitness = sum_list (map fitness population) / real (length population);
                  self = self\<lparr>best_fitness_history := best_fitness_history self @ [best_fitness],
                              avg_fitness_history := avg_fitness_history self @ [avg_fitness]\<rparr>;
                  self = (case best_chromosome self of
                            None \<Rightarrow> self\<lparr>best_chromosome := Some best\<rparr>
                          | Some b \<Rightarrow> if fitness b < best_fitness
                                      then self\<lparr>best_chromosome := Some best\<rparr> else self);
                  next_generation = slice_to population (elitism_count self)
              in case generate_offspring self population next_generation (draws st) of
                   Inl e \<Rightarrow> Inl e
                 | Inr (next_generation, g) \<Rightarrow>
                     (case evaluate_all ext self
                             (slice_from next_generation (elitism_count self)) (readings st) of
                        Inl e \<Rightarrow> Inl e
                      | Inr (evaluated, ms) \<Rightarrow>
                          Inr \<lparr>ga = self,
                               current =
                                 take (length next_generation
                                       - length (slice_from next_generation (elitism_count self)))
                                   next_generation @ evaluated,
                               draws = g, readings = ms\<rparr>)))"

fun generations :: "externals \<Rightarrow> nat \<Rightarrow> run \<Rightarrow> error + run" where
  "generations ext 0 st = Inr st"
| "generations ext (Suc n) st =
     (case generation ext st of Inl e \<Rightarrow> Inl e | Inr st' \<Rightarrow> generations ext n st')"

text \<open>
  \<open>evolve\<close>: the result is the returned chromosome and the final state. The last two
  statements before the report sort the final population and store its first chromosome
  in \<open>self.best_chromosome\<close>.
\<close>

definition evolve ::
  "externals \<Rightarrow> GeneticAlgorithm \<Rightarrow> rng \<Rightarrow> measurements \<Rightarrow>
   error + (KeyScheduleChromosome \<times> run)" where
  "evolve ext self g ms =
     (let (population, g) = initialize_population self g
      in case evaluate_all ext self population ms of
           Inl e \<Rightarrow> Inl e
         | Inr (population, ms) \<Rightarrow>
             (case generations ext (nat (num_generations self))
                     \<lparr>ga = self, current = population, draws = g, readings = ms\<rparr> of
                Inl e \<Rightarrow> Inl e
              | Inr st \<Rightarrow>
                  (case sort_key (\<lambda>c. - fitness c) (current st) of
                     [] \<Rightarrow> Inl IndexError
                   | best # rest \<Rightarrow>
                       Inr (best, st\<lparr>ga := (ga st)\<lparr>best_chromosome := Some best\<rparr>,
                                     current := best # rest\<rparr>))))"


section \<open>Reference definitions\<close>

subsection \<open>The standard AES-128 key expansion (FIPS 197, section 5.2)\<close>

text \<open>
  The standard states the key expansion on four-byte words \<open>w[0..43]\<close>:
  \<open>w[i]\<close> is the \<open>i\<close>-th word of the key for \<open>i < 4\<close>, and
  \<open>w[i] = w[i-4] xor temp\<close> for \<open>i \<ge> 4\<close>, where \<open>temp\<close> is \<open>w[i-1]\<close>, replaced by
  \<open>SubWord(RotWord(temp)) xor Rcon[i/4]\<close> when \<open>i\<close> is a multiple of 4.
  \<open>Rcon[j]\<close> is the word \<open>(x^(j-1), 0, 0, 0\<close>) with the power taken in GF(2^8), that is by
  repeated \<open>xtime\<close>; the S-box is the table of the standard's Figure 7.
\<close>

type_synonym word4 = "byte \<times> byte \<times> byte \<times> byte"

definition xtime :: "byte \<Rightarrow> byte" where
  "xtime b = (if bit b 7 then push_bit 1 b XOR 0x1b else push_bit 1 b)"

primrec x_power :: "nat \<Rightarrow> byte" where
  "x_power 0 = 1"
| "x_power (Suc n) = xtime (x_power n)"

definition Rcon :: "nat \<Rightarrow> word4" where
  "Rcon j = (x_power (j - 1), 0, 0, 0)"

definition RotWord :: "word4 \<Rightarrow> word4" where
  "RotWord w = (case w of (a0, a1, a2, a3) \<Rightarrow> (a1, a2, a3, a0))"

definition SubWord :: "word4 \<Rightarrow> word4" where
  "SubWord w = (case w of (a0, a1, a2, a3) \<Rightarrow>
     (SBOX ! unat a0, SBOX ! unat a1, SBOX ! unat a2, SBOX ! unat a3))"

definition xor_word :: "word4 \<Rightarrow> word4 \<Rightarrow> word4" where
  "xor_word v w = (case v of (a0, a1, a2, a3) \<Rightarrow> case w of (b0, b1, b2, b3) \<Rightarrow>
     (a0 XOR b0, a1 XOR b1, a2 XOR b2, a3 XOR b3))"

definition key_word :: "byte list \<Rightarrow> nat \<Rightarrow> word4" where
  "key_word k i = (k ! (4 * i), k ! (4 * i + 1), k ! (4 * i + 2), k ! (4 * i + 3))"

text \<open>The words \<open>w[0 .. 3 + n]\<close>.\<close>

primrec key_schedule_words :: "byte list \<Rightarrow> nat \<Rightarrow> word4 list" where
  "key_schedule_words k 0 = map (key_word k) [0..<4]"
| "key_schedule_words k (Suc n) =
     (let w = key_schedule_words k n;
          i = length w;
          temp = w ! (i - 1);
          temp = (if i mod 4 = 0 then xor_word (SubWord (RotWord temp)) (Rcon (i div 4))
                  else temp)
      in w @ [xor_word (w ! (i - 4)) temp])"

definition word_bytes :: "word4 \<Rightarrow> byte list" where
  "word_bytes w = (case w of (a0, a1, a2, a3) \<Rightarrow> [a0, a1, a2, a3])"

definition aes128_key_expansion :: "byte list \<Rightarrow> byte list" where
  "aes128_key_expansion k = concat (map word_bytes (key_schedule_words k 40))"

text \<open>
  The example of the standard's appendix C.1 (appendix A.1 lists the expansion of another
  key): the cipher key \<open>00 01 02 ... 0f\<close> and its eleven round keys, 176 bytes.
\<close>

definition published_key :: "byte list" where
  "published_key = [0x00, 0x01, 0x02, 0x03, 0x04, 0x05, 0x06, 0x07, 0x08, 0x09, 0x0a, 0x0b, 0x0c, 0x0d, 0x0e, 0x0f]"

definition published_vector :: "byte list" where
  "published_vector = [0x00, 0x01, 0x02, 0x03, 0x04, 0x05, 0x06, 0x07, 0x08, 0x09, 0x0a, 0x0b, 0x0c, 0x0d, 0x0e, 0x0f,
     0xd6, 0xaa, 0x74, 0xfd, 0xd2, 0xaf, 0x72, 0xfa, 0xda, 0xa6, 0x78, 0xf1, 0xd6, 0xab, 0x76, 0xfe,
     0xb6, 0x92, 0xcf, 0x0b, 0x64, 0x3d, 0xbd, 0xf1, 0xbe, 0x9b, 0xc5, 0x00, 0x68, 0x30, 0xb3, 0xfe,
     0xb6, 0xff, 0x74, 0x4e, 0xd2, 0xc2, 0xc9, 0xbf, 0x6c, 0x59, 0x0c, 0xbf, 0x04, 0x69, 0xbf, 0x41,
     0x47, 0xf7, 0xf7, 0xbc, 0x95, 0x35, 0x3e, 0x03, 0xf9, 0x6c, 0x32, 0xbc, 0xfd, 0x05, 0x8d, 0xfd,
     0x3c, 0xaa, 0xa3, 0xe8, 0xa9, 0x9f, 0x9d, 0xeb, 0x50, 0xf3, 0xaf, 0x57, 0xad, 0xf6, 0x22, 0xaa,
     0x5e, 0x39, 0x0f, 0x7d, 0xf7, 0xa6, 0x92, 0x96, 0xa7, 0x55, 0x3d, 0xc1, 0x0a, 0xa3, 0x1f, 0x6b,
     0x14, 0xf9, 0x70, 0x1a, 0xe3, 0x5f, 0xe2, 0x8c, 0x44, 0x0a, 0xdf, 0x4d, 0x4e, 0xa9, 0xc0, 0x26,
     0x47, 0x43, 0x87, 0x35, 0xa4, 0x1c, 0x65, 0xb9, 0xe0, 0x16, 0xba, 0xf4, 0xae, 0xbf, 0x7a, 0xd2,
     0x54, 0x99, 0x32, 0xd1, 0xf0, 0x85, 0x57, 0x68, 0x10, 0x93, 0xed, 0x9c, 0xbe, 0x2c, 0x97, 0x4e,
     0x13, 0x11, 0x1d, 0x7f, 0xe3, 0x94, 0x4a, 0x17, 0xf3, 0x07, 0xa7, 0x8b, 0x4d, 0x2b, 0x30, 0xc5]"

subsection \<open>The chromosome invariant\<close>

text \<open>Both gene sequences have length 10 and every gene is 1, 2 or 3.\<close>

definition genes_ok :: "int list \<Rightarrow> bool" where
  "genes_ok gs \<longleftrightarrow> length gs = 10 \<and> list_all (\<lambda>x. x = 1 \<or> x = 2 \<or> x = 3) gs"

definition valid_chromosome :: "KeyScheduleChromosome \<Rightarrow> bool" where
  "valid_chromosome c \<longleftrightarrow> genes_ok (rotations c) \<and> genes_ok (rcon_multipliers c)"

subsection \<open>Missing parameters\<close>


section \<open>The key schedule: termination, length and prefix\<close>

lemma length_slice: "b \<le> length xs \<Longrightarrow> length (slice xs a b) = b - a"
  by (simp add: slice_def)

lemma length_rot_word: "length (rot_word w p) = length w"
  by (simp add: rot_word_def Let_def)

lemma length_sub_word: "length (sub_word w) = length w"
  by (simp add: sub_word_def)

lemma sub_word_Nil: "sub_word w = [] \<longleftrightarrow> w = []"
  by (simp add: sub_word_def)

lemma rot_word_Nil: "rot_word w p = [] \<longleftrightarrow> w = []"
  using length_rot_word [of w p] by (metis length_0_conv)

lemma expansion_step_ok:
  assumes "4 \<le> i" and "4 * i \<le> length expanded"
  shows "\<exists>new. length new = 4 \<and> expansion_step r m i expanded = Inr (expanded @ new)"
proof -
  have t: "length (slice expanded ((i - 1) * 4) (i * 4)) = 4"
    using assms by (simp add: length_slice)
  have p: "length (slice expanded ((i - 4) * 4) ((i - 3) * 4)) = 4"
    using assms by (simp add: length_slice)
  show ?thesis
    unfolding expansion_step_def Let_def
    using t p by (auto simp: length_rot_word length_sub_word sub_word_Nil rot_word_Nil)
qed

lemma expansion_loop_ok:
  assumes "4 \<le> a" and "4 * a \<le> length expanded"
  shows "\<exists>out. expansion_loop r m [a..<a + n] expanded = Inr out
           \<and> length out = length expanded + 4 * n
           \<and> take (length expanded) out = expanded"
  using assms
proof (induction n arbitrary: a expanded)
  case 0
  then show ?case by simp
next
  case (Suc n)
  obtain new where new: "length new = 4"
      "expansion_step r m a expanded = Inr (expanded @ new)"
    using expansion_step_ok [OF Suc.prems] by blast
  have "4 \<le> Suc a" "4 * Suc a \<le> length (expanded @ new)"
    using Suc.prems new by auto
  from Suc.IH [OF this] obtain out where out:
      "expansion_loop r m [Suc a..<Suc a + n] (expanded @ new) = Inr out"
      "length out = length (expanded @ new) + 4 * n"
      "take (length (expanded @ new)) out = expanded @ new"
    by blast
  have "take (length expanded) out = take (length expanded) (take (length (expanded @ new)) out)"
    by (simp add: min_def)
  also have "\<dots> = expanded" using out(3) by simp
  finally have tk: "take (length expanded) out = expanded" .
  have "[a..<a + Suc n] = a # [Suc a..<Suc a + n]"
    by (simp add: upt_conv_Cons)
  then show ?case using new out tk by simp
qed

lemma custom_key_expansion_long:
  assumes "16 \<le> length k"
  shows "\<exists>out. custom_key_expansion r m k = Inr out
           \<and> length out = length k + 160 \<and> take (length k) out = k"
  using expansion_loop_ok [of 4 k r m 40] assms
  by (simp add: custom_key_expansion_def)

lemma custom_key_expansion_short:
  assumes "length k < 16"
  shows "custom_key_expansion r m k = Inl IndexError"
proof -
  have u: "[4..<44] = 4 # [5..<44]" by (simp add: upt_conv_Cons)
  have t: "length (slice k 12 16) < 4" using assms by (simp add: slice_def)
  have "expansion_step r m 4 k = Inl IndexError"
    unfolding expansion_step_def Let_def
    using t by (auto simp: length_rot_word length_sub_word sub_word_Nil rot_word_Nil)
  then show ?thesis by (simp add: custom_key_expansion_def u)
qed

text \<open>
  C2. For every 16-byte key and every pair of length-10 parameter arrays, the expansion
  returns (no exception) exactly 176 bytes, and bytes 0 to 15 of the result are the key.
\<close>

theorem expansion_176_bytes_key_prefix:
  assumes "length k = 16" and "length r = 10" and "length m = 10"
  shows "\<exists>out. custom_key_expansion r m k = Inr out \<and> length out = 176 \<and> take 16 out = k"
  using custom_key_expansion_long [of k r m] assms(1) by simp

theorem expansion_176_bytes_key_prefix_witness:
  "length (replicate 16 (0::byte)) = 16 \<and> length (replicate 10 (2::int)) = 10
   \<and> length (replicate 10 (3::int)) = 10
   \<and> (\<exists>out. custom_key_expansion (replicate 10 2) (replicate 10 3) (replicate 16 0) = Inr out
          \<and> length out = 176 \<and> take 16 out = replicate 16 0)"
  using expansion_176_bytes_key_prefix [of "replicate 16 0" "replicate 10 2" "replicate 10 3"]
  by simp


text \<open>
  C3, as amended. The expansion does not check the length of the key. A key shorter than
  16 bytes makes the call abort with IndexError at the first word, and no schedule is
  produced; a key longer than 16 bytes is not rejected: the call returns the key followed
  by 160 derived bytes.
\<close>

theorem expansion_by_key_length:
  "(length k < 16 \<longrightarrow> custom_key_expansion r m k = Inl IndexError)
   \<and> (16 < length k \<longrightarrow>
        (\<exists>out. custom_key_expansion r m k = Inr out
           \<and> length out = length k + 160 \<and> take (length k) out = k))"
  using custom_key_expansion_long [of k r m] custom_key_expansion_short [of k r m]
  by auto

theorem expansion_by_key_length_witness:
  "custom_key_expansion [1, 2] [3] (replicate 15 0) = Inl IndexError
   \<and> (\<exists>out. custom_key_expansion [1, 2] [3] (replicate 24 0) = Inr out
          \<and> length out = 184 \<and> take 24 out = replicate 24 0)"
  using expansion_by_key_length [of "replicate 15 0" "[1, 2]" "[3]"]
        expansion_by_key_length [of "replicate 24 0" "[1, 2]" "[3]"]
  by simp

text \<open>
  The claim as stated (every key whose length is not 16 is rejected) fails on a 17-byte
  key: the expansion returns a schedule.
\<close>

theorem long_key_counterexample:
  "length (replicate 17 (0::byte)) \<noteq> 16
   \<and> \<not> isl (custom_key_expansion (replicate 10 1) (replicate 10 1) (replicate 17 0))"
  using custom_key_expansion_long [of "replicate 17 0" "replicate 10 1" "replicate 10 1"]
  by auto

section \<open>The key schedule: missing parameter entries\<close>










section \<open>Encryption does not depend on the parameters\<close>

lemma encrypt_outcome:
  assumes "16 \<le> length k"
  shows "map_sum id fst (encrypt C s e aes pt k) = C k (pad pt 16)"
proof -
  obtain out where "custom_key_expansion (CustomAES.rotations aes) (CustomAES.rcon_multipliers aes) k = Inr out"
    using custom_key_expansion_long [OF assms] by blast
  then show ?thesis
    by (simp add: encrypt_def Let_def split: sum.splits)
qed

text \<open>
  C4. For every plaintext, every 16-byte key and any two cipher objects (any two parameter
  configurations), \<open>encrypt\<close> has the same outcome: the ciphertext that the external
  cipher computes from the original key and the padded plaintext.
\<close>

theorem encrypt_parameter_noninterference:
  assumes "length k = 16"
  shows "map_sum id fst (encrypt C s1 e1 aes1 pt k) = map_sum id fst (encrypt C s2 e2 aes2 pt k)
         \<and> map_sum id fst (encrypt C s1 e1 aes1 pt k) = C k (pad pt 16)"
  using encrypt_outcome [of k C] assms by simp

theorem encrypt_parameter_noninterference_witness:
  "length (replicate 16 (7::byte)) = 16
   \<and> map_sum id fst (encrypt (\<lambda>k p. Inr (rev p)) 0 1 (init_CustomAES None) [1, 2, 3] (replicate 16 7))
       = map_sum id fst (encrypt (\<lambda>k p. Inr (rev p)) 2 5
           (init_CustomAES (Some [''rotations'' \<mapsto> replicate 10 3])) [1, 2, 3] (replicate 16 7))
   \<and> map_sum id fst (encrypt (\<lambda>k p. Inr (rev p)) 0 1 (init_CustomAES None) [1, 2, 3] (replicate 16 7))
       = Inr (rev (pad [1, 2, 3] 16))"
proof -
  have h: "length (replicate 16 (7::byte)) = 16" by simp
  show ?thesis
    using h encrypt_parameter_noninterference [OF h, of "\<lambda>k p. Inr (rev p)" 0 1
          "init_CustomAES None" "[1, 2, 3]" 2 5
          "init_CustomAES (Some [''rotations'' \<mapsto> replicate 10 3])"]
    by blast
qed

section \<open>Neutral parameters: the standard key expansion\<close>

lemma length_key_schedule_words: "length (key_schedule_words k n) = 4 + n"
  by (induction n) (simp_all add: Let_def)

lemma length_word_bytes: "length (word_bytes w) = 4"
  by (cases w) (simp add: word_bytes_def)

lemma slice_words:
  "j < length ws \<Longrightarrow> slice (concat (map word_bytes ws)) (j * 4) (j * 4 + 4) = word_bytes (ws ! j)"
proof (induction ws arbitrary: j)
  case Nil
  then show ?case by simp
next
  case (Cons w ws)
  show ?case
  proof (cases j)
    case 0
    then show ?thesis by (simp add: slice_def length_word_bytes)
  next
    case (Suc j')
    with Cons.prems have "j' < length ws" by simp
    from Cons.IH [OF this] show ?thesis
      using Suc by (simp add: slice_def length_word_bytes)
  qed
qed

lemma upt_0_4: "[0..<4] = [0, 1, 2, Suc 2]"
  by (simp add: upt_rec)

lemma key_words_flat:
  assumes "length k = 16"
  shows "concat (map word_bytes (map (key_word k) [0..<4])) = k"
proof -
  obtain k0 k1 k2 k3 k4 k5 k6 k7 k8 k9 k10 k11 k12 k13 k14 k15
    where k: "k = [k0, k1, k2, k3, k4, k5, k6, k7, k8, k9, k10, k11, k12, k13, k14, k15]"
    using assms by (auto simp: numeral_eq_Suc length_Suc_conv)
  show ?thesis
    unfolding k by (simp add: upt_0_4 word_bytes_def key_word_def)
qed

lemma rcon_table: "\<forall>rn \<in> set [0..<10]. (word_of_int (RCON ! rn * 1 mod 256) :: byte) = x_power rn"
  by code_simp

lemma rcon_standard: "rn < 10 \<Longrightarrow> (word_of_int (RCON ! rn mod 256) :: byte) = x_power rn"
  using rcon_table by simp

lemma expansion_step_words:
  assumes t: "slice e ((i - 1) * 4) (i * 4) = [a0, a1, a2, a3]"
    and p: "slice e ((i - 4) * 4) ((i - 3) * 4) = [b0, b1, b2, b3]"
    and rn: "i div 4 - 1 < 10"
  shows "expansion_step (replicate 10 1) (replicate 10 1) i e =
         Inr (e @ word_bytes (xor_word (b0, b1, b2, b3)
                (if i mod 4 = 0
                 then xor_word (SubWord (RotWord (a0, a1, a2, a3))) (Rcon (i div 4))
                 else (a0, a1, a2, a3))))"
proof (cases "i mod 4 = 0")
  case True
  have r1: "rot_word [a0, a1, a2, a3] 1 = [a1, a2, a3, a0]"
    by (simp add: rot_word_def)
  show ?thesis
    unfolding expansion_step_def Let_def t p
    using True rn rcon_standard [OF rn]
    by (simp add: r1 sub_word_def upt_0_4 word_bytes_def xor_word_def
          SubWord_def RotWord_def Rcon_def xor.commute)
next
  case False
  show ?thesis
    unfolding expansion_step_def Let_def t p
    using False
    by (simp add: upt_0_4 word_bytes_def xor_word_def xor.commute)
qed

lemma expansion_loop_append:
  "expansion_loop r m (xs @ ys) e =
     (case expansion_loop r m xs e of Inl x \<Rightarrow> Inl x | Inr e' \<Rightarrow> expansion_loop r m ys e')"
  by (induction xs arbitrary: e) (simp_all split: sum.splits)

lemma expansion_step_standard:
  assumes "n < 40"
  shows "expansion_step (replicate 10 1) (replicate 10 1) (4 + n)
           (concat (map word_bytes (key_schedule_words k n)))
         = Inr (concat (map word_bytes (key_schedule_words k (Suc n))))"
proof -
  let ?ws = "key_schedule_words k n"
  let ?E = "concat (map word_bytes ?ws)"
  have len: "length ?ws = 4 + n" by (rule length_key_schedule_words)
  obtain a0 a1 a2 a3 where a: "?ws ! (3 + n) = (a0, a1, a2, a3)"
    by (cases "?ws ! (3 + n)") auto
  obtain b0 b1 b2 b3 where b: "?ws ! n = (b0, b1, b2, b3)"
    by (cases "?ws ! n") auto
  have i1: "(4 + n - 1) * 4 = (3 + n) * 4" "(4 + n) * 4 = (3 + n) * 4 + 4"
    and i4: "(4 + n - 4) * 4 = n * 4" "(4 + n - 3) * 4 = n * 4 + 4"
    by simp_all
  have "slice ?E ((3 + n) * 4) ((3 + n) * 4 + 4) = word_bytes (?ws ! (3 + n))"
    by (rule slice_words) (simp add: len)
  then have t: "slice ?E ((4 + n - 1) * 4) ((4 + n) * 4) = [a0, a1, a2, a3]"
    unfolding i1 a by (simp add: word_bytes_def)
  have "slice ?E (n * 4) (n * 4 + 4) = word_bytes (?ws ! n)"
    by (rule slice_words) (simp add: len)
  then have p: "slice ?E ((4 + n - 4) * 4) ((4 + n - 3) * 4) = [b0, b1, b2, b3]"
    unfolding i4 b by (simp add: word_bytes_def)
  have rn: "(4 + n) div 4 - 1 < 10" using assms by arith
  have j: "4 + n - 1 = 3 + n" "4 + n - 4 = n" by simp_all
  show ?thesis
    unfolding expansion_step_words [OF t p rn]
    by (simp only: key_schedule_words.simps Let_def len j a b map_append concat_append
          list.map concat.simps append_Nil2)
qed

lemma expansion_loop_standard:
  assumes "length k = 16"
  shows "n \<le> 40 \<Longrightarrow>
         expansion_loop (replicate 10 1) (replicate 10 1) [4..<4 + n] k
         = Inr (concat (map word_bytes (key_schedule_words k n)))"
proof (induction n)
  case 0
  show ?case using key_words_flat [OF assms] by simp
next
  case (Suc n)
  then have n: "n < 40" and IH: "expansion_loop (replicate 10 1) (replicate 10 1) [4..<4 + n] k
         = Inr (concat (map word_bytes (key_schedule_words k n)))"
    by simp_all
  have "[4..<Suc (4 + n)] = [4..<4 + n] @ [4 + n]" by (rule upt_Suc_append) simp
  then show ?case
    by (simp only: add_Suc_right expansion_loop_append IH sum.case expansion_loop.simps
          expansion_step_standard [OF n])
qed


lemma custom_key_expansion_standard:
  assumes "length k = 16"
  shows "custom_key_expansion (replicate 10 1) (replicate 10 1) k = Inr (aes128_key_expansion k)"
  using expansion_loop_standard [OF assms, of 40]
  by (simp add: custom_key_expansion_def aes128_key_expansion_def)

lemma published_expansion:
  "aes128_key_expansion published_key = published_vector"
  unfolding published_vector_def published_key_def by code_simp

text \<open>
  C1. For every 16-byte key, the expansion with the neutral parameters
  \<open>rotations = [1]*10\<close> and \<open>rcon_multipliers = [1]*10\<close> returns exactly the standard
  AES-128 key expansion of the key; for the key \<open>00 01 02 ... 0f\<close> the result is the
  expansion that the standard publishes for that key.
\<close>

theorem neutral_parameters_standard_schedule:
  "(length k = 16 \<longrightarrow>
      custom_key_expansion (replicate 10 1) (replicate 10 1) k = Inr (aes128_key_expansion k))
   \<and> custom_key_expansion (replicate 10 1) (replicate 10 1) published_key
       = Inr published_vector"
proof -
  have "length published_key = 16" by (simp add: published_key_def)
  then show ?thesis
    using custom_key_expansion_standard [of k] custom_key_expansion_standard [of published_key]
    by (simp add: published_expansion)
qed

theorem neutral_parameters_standard_schedule_witness:
  "length published_key = 16
   \<and> custom_key_expansion (replicate 10 1) (replicate 10 1) published_key
       = Inr (aes128_key_expansion published_key)
   \<and> custom_key_expansion (replicate 10 1) (replicate 10 1) published_key
       = Inr published_vector"
proof -
  have h: "length published_key = 16" by (simp add: published_key_def)
  show ?thesis
    using neutral_parameters_standard_schedule [of published_key] h by blast
qed

section \<open>Crossover\<close>

lemma random_random_range: "0 \<le> fst (random_random g) \<and> fst (random_random g) < 1"
  by (simp add: random_random_def)

lemma randint_range: "a \<le> b \<Longrightarrow> a \<le> fst (randint a b g) \<and> fst (randint a b g) \<le> b"
proof -
  assume ab: "a \<le> b"
  then have "0 < nat (b - a + 1)" by simp
  then have "g 0 mod nat (b - a + 1) < nat (b - a + 1)" by (rule mod_less_divisor)
  then have "int (g 0 mod nat (b - a + 1)) < b - a + 1" using ab by linarith
  then show ?thesis by (simp add: randint_def)
qed

lemma crossover_above_rate:
  assumes "fst (random_random g) > crossover_rate self"
  shows "crossover_single_point self parent1 parent2 g = ((parent1, parent2), snd (random_random g))"
  using assms by (simp add: crossover_single_point_def split_def)

lemma crossover_within_rate:
  assumes "\<not> fst (random_random g) > crossover_rate self"
  shows "crossover_single_point self parent1 parent2 g =
     (let point = fst (randint 1 9 (rng_tail g)) in
      ((new_chromosome (slice_to (rotations parent1) point @ slice_from (rotations parent2) point)
          (slice_to (rcon_multipliers parent1) point @ slice_from (rcon_multipliers parent2) point),
        new_chromosome (slice_to (rotations parent2) point @ slice_from (rotations parent1) point)
          (slice_to (rcon_multipliers parent2) point @ slice_from (rcon_multipliers parent1) point)),
       rng_tail (rng_tail g)))"
  using assms by (simp add: crossover_single_point_def split_def Let_def random_random_def randint_def)

lemma crossover_rate_zero_positive_draw:
  assumes "crossover_rate self = 0" and "g 0 mod 2 ^ 53 \<noteq> 0"
  shows "fst (crossover_single_point self parent1 parent2 g) = (parent1, parent2)"
proof -
  have "fst (random_random g) > crossover_rate self"
    using assms by (simp add: random_random_def)
  then show ?thesis by (simp add: crossover_above_rate)
qed

lemma cut_point_reachable:
  assumes "1 \<le> p" and "p \<le> 9"
  shows "fst (randint 1 9 (rng_tail (\<lambda>n. nat (p - 1)))) = p"
  using assms by (simp add: randint_def rng_tail_def)

text \<open>
  C8. With \<open>crossover_rate = 0\<close> the crossover is meant to return both parents unchanged
  whatever the random source draws. The test of the source is
  \<open>random.random() > self.crossover_rate\<close>, and \<open>random.random()\<close> can return 0.0: at that
  draw the test \<open>0.0 > 0\<close> is false, and the parents are cut and recombined. Here the
  all-ones chromosome and the chromosome of twos and threes are crossed at the cut point 1,
  and the first child is neither parent. (For every other draw the parents are returned:
  \<open>crossover_rate_zero_positive_draw\<close>. The sibling test of \<open>mutate\<close>,
  \<open>random.random() < self.mutation_rate\<close>, never fires at rate 0.)
\<close>

theorem crossover_rate_zero_draw_zero:
  "crossover_single_point (init_GeneticAlgorithm 25 0 0.2 30 2 (replicate 16 0))
       standard (new_chromosome (replicate 10 2) (replicate 10 3)) (\<lambda>n. 0)
     = ((new_chromosome (1 # replicate 9 2) (1 # replicate 9 3),
         new_chromosome (2 # replicate 9 1) (3 # replicate 9 1)), rng_tail (rng_tail (\<lambda>n. 0)))
   \<and> fst (fst (crossover_single_point (init_GeneticAlgorithm 25 0 0.2 30 2 (replicate 16 0))
       standard (new_chromosome (replicate 10 2) (replicate 10 3)) (\<lambda>n. 0))) \<noteq> standard"
proof -
  let ?self = "init_GeneticAlgorithm 25 0 0.2 30 2 (replicate 16 0)"
  have u: "\<not> fst (random_random (\<lambda>n. 0)) > crossover_rate ?self"
    by (simp add: random_random_def init_GeneticAlgorithm_def)
  have p: "fst (randint 1 9 (rng_tail (\<lambda>n. 0))) = 1"
    by (simp add: randint_def rng_tail_def)
  have e: "crossover_single_point ?self standard (new_chromosome (replicate 10 2) (replicate 10 3)) (\<lambda>n. 0)
     = ((new_chromosome (1 # replicate 9 2) (1 # replicate 9 3),
         new_chromosome (2 # replicate 9 1) (3 # replicate 9 1)), rng_tail (rng_tail (\<lambda>n. 0)))"
    unfolding crossover_within_rate [OF u] Let_def p
    by (simp add: standard_def new_chromosome_def slice_to_def slice_from_def numeral_eq_Suc)
  show ?thesis unfolding e by (simp add: standard_def new_chromosome_def numeral_eq_Suc)
qed

text \<open>
  C9. With \<open>crossover_rate = 1\<close> the test \<open>random.random() > 1\<close> is false at every draw,
  so one cut point \<open>point = random.randint(1, 9)\<close> is drawn, between 1 and 9, and used for
  both arrays: the first child is \<open>parent1[:point] + parent2[point:]\<close> on the rotations and
  on the multipliers, the second child is \<open>parent2[:point] + parent1[point:]\<close> on both.
  For parents with ten genes in each array, the slices \<open>[:point]\<close> and \<open>[point:]\<close> of the
  children are the corresponding slices of the parents. (Every cut point from 1 to 9 is
  drawn by some random source: \<open>cut_point_reachable\<close>; the distribution of the draw is
  that of the library function.)
\<close>

theorem crossover_rate_one_single_cut:
  assumes "crossover_rate self = 1"
  shows "\<exists>point. 1 \<le> point \<and> point \<le> 9 \<and> point = fst (randint 1 9 (rng_tail g))
      \<and> fst (crossover_single_point self parent1 parent2 g)
          = (new_chromosome
               (take (nat point) (rotations parent1) @ drop (nat point) (rotations parent2))
               (take (nat point) (rcon_multipliers parent1)
                @ drop (nat point) (rcon_multipliers parent2)),
             new_chromosome
               (take (nat point) (rotations parent2) @ drop (nat point) (rotations parent1))
               (take (nat point) (rcon_multipliers parent2)
                @ drop (nat point) (rcon_multipliers parent1)))
      \<and> (valid_chromosome parent1 \<and> valid_chromosome parent2 \<longrightarrow>
           (let (child1, child2) = fst (crossover_single_point self parent1 parent2 g) in
              slice_to (rotations child1) point = slice_to (rotations parent1) point
            \<and> slice_from (rotations child1) point = slice_from (rotations parent2) point
            \<and> slice_to (rcon_multipliers child1) point = slice_to (rcon_multipliers parent1) point
            \<and> slice_from (rcon_multipliers child1) point = slice_from (rcon_multipliers parent2) point
            \<and> slice_to (rotations child2) point = slice_to (rotations parent2) point
            \<and> slice_from (rotations child2) point = slice_from (rotations parent1) point
            \<and> slice_to (rcon_multipliers child2) point = slice_to (rcon_multipliers parent2) point
            \<and> slice_from (rcon_multipliers child2) point = slice_from (rcon_multipliers parent1) point))"
proof -
  define q where "q = fst (randint 1 9 (rng_tail g))"
  have r: "1 \<le> q \<and> q \<le> 9" unfolding q_def using randint_range [of 1 9] by simp
  have u: "\<not> fst (random_random g) > crossover_rate self"
    using random_random_range [of g] assms by simp
  have s: "slice_to xs q = take (nat q) xs" "slice_from xs q = drop (nat q) xs" for xs :: "int list"
    using r by (simp_all add: slice_to_def slice_from_def)
  have e: "fst (crossover_single_point self parent1 parent2 g)
          = (new_chromosome (take (nat q) (rotations parent1) @ drop (nat q) (rotations parent2))
               (take (nat q) (rcon_multipliers parent1) @ drop (nat q) (rcon_multipliers parent2)),
             new_chromosome (take (nat q) (rotations parent2) @ drop (nat q) (rotations parent1))
               (take (nat q) (rcon_multipliers parent2) @ drop (nat q) (rcon_multipliers parent1)))"
    unfolding crossover_within_rate [OF u] Let_def q_def [symmetric] s by simp
  have n: "nat q \<le> 9" using r by linarith
  have v: "valid_chromosome parent1 \<and> valid_chromosome parent2 \<longrightarrow>
           (let (child1, child2) = fst (crossover_single_point self parent1 parent2 g) in
              slice_to (rotations child1) q = slice_to (rotations parent1) q
            \<and> slice_from (rotations child1) q = slice_from (rotations parent2) q
            \<and> slice_to (rcon_multipliers child1) q = slice_to (rcon_multipliers parent1) q
            \<and> slice_from (rcon_multipliers child1) q = slice_from (rcon_multipliers parent2) q
            \<and> slice_to (rotations child2) q = slice_to (rotations parent2) q
            \<and> slice_from (rotations child2) q = slice_from (rotations parent1) q
            \<and> slice_to (rcon_multipliers child2) q = slice_to (rcon_multipliers parent2) q
            \<and> slice_from (rcon_multipliers child2) q = slice_from (rcon_multipliers parent1) q)"
    unfolding e s using n
    by (simp add: valid_chromosome_def genes_ok_def new_chromosome_def min_def)
  show ?thesis
    using r e v unfolding q_def by blast
qed

theorem crossover_rate_one_single_cut_witness:
  "crossover_rate (init_GeneticAlgorithm 25 1 0.2 30 2 (replicate 16 0)) = 1
   \<and> valid_chromosome standard \<and> valid_chromosome (new_chromosome (replicate 10 2) (replicate 10 3))
   \<and> fst (randint 1 9 (rng_tail (\<lambda>n. 2))) = 3
   \<and> fst (crossover_single_point (init_GeneticAlgorithm 25 1 0.2 30 2 (replicate 16 0))
            standard (new_chromosome (replicate 10 2) (replicate 10 3)) (\<lambda>n. 2))
       = (new_chromosome (replicate 3 1 @ replicate 7 2) (replicate 3 1 @ replicate 7 3),
          new_chromosome (replicate 3 2 @ replicate 7 1) (replicate 3 3 @ replicate 7 1))"
proof -
  let ?self = "init_GeneticAlgorithm 25 1 0.2 30 2 (replicate 16 0)"
  have h: "crossover_rate ?self = 1" by (simp add: init_GeneticAlgorithm_def)
  have p: "fst (randint 1 9 (rng_tail (\<lambda>n. 2))) = 3" by (simp add: randint_def rng_tail_def)
  have v: "valid_chromosome standard \<and> valid_chromosome (new_chromosome (replicate 10 2) (replicate 10 3))"
    by (simp add: valid_chromosome_def genes_ok_def standard_def new_chromosome_def list_all_iff)
  show ?thesis
    using crossover_rate_one_single_cut [OF h, of "\<lambda>n. 2" standard
            "new_chromosome (replicate 10 2) (replicate 10 3)"] h v
    unfolding p
    by (auto simp: standard_def new_chromosome_def)
qed


end
